theory Spec2Isabelle
  imports Complex_Main
begin

section \<open>The wrapped framework, as the builder sees it\<close>

text \<open>
  The builder of \<^verbatim>\<open>cnn/builder.py\<close> never computes on tensors: every layer is a call
  into the tensor framework. A framework call is therefore a constructor that keeps the
  arguments it was given, and the default graph is the list of the calls made so far, in
  the order they were made. What the framework does with a call (shape inference, argument
  validation) is outside this development.
\<close>

text \<open>Python exceptions that the modelled code can raise or build.\<close>

datatype py_exception =
    IndexError
  | ZeroDivisionError
  | KeyError string
  | TypeError string

text \<open>A framework data type; the code only reads its \<^verbatim>\<open>is_floating\<close> attribute.\<close>

record dtype =
  dtype_name :: string
  is_floating :: bool

definition float32 :: dtype where
  "float32 = \<lparr>dtype_name = ''float32'', is_floating = True\<rparr>"

definition int32 :: dtype where
  "int32 = \<lparr>dtype_name = ''int32'', is_floating = False\<rparr>"

text \<open>
  The value \<^verbatim>\<open>(6 / (fan_in + fan_out)) ** 0.5\<close> is a Python float. It is kept as the
  expression that the code evaluates, so that nothing here depends on rounding. The
  operators are read as those of Python 3: the division raises only for a zero divisor, and
  the power never raises.
\<close>

datatype pynum =
    IntLit int
  | FloatHalf
  | TrueDiv pynum pynum
  | Pow pynum pynum
  | Neg pynum

datatype tf_initializer =
    RandomUniformInitializer pynum pynum dtype
  | ZerosInitializer dtype

text \<open>
  What \<^verbatim>\<open>cnn_variable\<close> hands back: the variable that \<^verbatim>\<open>tf.get_variable\<close> made
  (with the enclosing variable scope, the device, and the arguments of the call), or an
  exception object.
\<close>

datatype pyobj =
    Variable string string string "int list" dtype tf_initializer
  | ExceptionObject py_exception

datatype tensor =
    InputTensor nat
  | Conv2d tensor pyobj "int list" string string
  | BiasAdd tensor pyobj string
  | MatMul tensor pyobj
  | Add tensor pyobj
  | Relu tensor
  | Sigmoid tensor
  | Softmax tensor
  | Tanh tensor
  | Dropout tensor real string
  | MaxPool tensor "int list" "int list" string string string
  | LocalResponseNormalization tensor "real option" "real option" "real option"
      "real option" string
  | Reshape tensor "int list" string

datatype tf_call =
    TensorOp tensor
  | GetVariable pyobj

type_synonym graph = "tf_call list"

type_synonym 'a result = "py_exception + 'a"

section \<open>Module functions of builder.py\<close>

subsection \<open>\<^verbatim>\<open>_initializer\<close>\<close>

text \<open>
  \<^verbatim>\<open>for dim in shape[:-2]: fan_in *= dim; fan_out *= dim\<close>
\<close>

fun fan_loop :: "int list \<Rightarrow> int \<times> int \<Rightarrow> int \<times> int" where
  "fan_loop [] (fan_in, fan_out) = (fan_in, fan_out)"
| "fan_loop (d # ds) (fan_in, fan_out) = fan_loop ds (fan_in * d, fan_out * d)"

text \<open>
  \<^verbatim>\<open>method or 'zeros'\<close>: \<^verbatim>\<open>None\<close> and the empty string are falsy.
\<close>

definition or_default :: "string option \<Rightarrow> string \<Rightarrow> string" where
  "or_default method d = (case method of None \<Rightarrow> d | Some m \<Rightarrow> if m = [] then d else m)"

text \<open>Subscription of a dictionary literal: a missing key raises \<^verbatim>\<open>KeyError\<close>.\<close>

definition dict_lookup :: "(string \<times> 'a) list \<Rightarrow> string \<Rightarrow> 'a result" where
  "dict_lookup table k = (case map_of table k of None \<Rightarrow> Inl (KeyError k) | Some v \<Rightarrow> Inr v)"

text \<open>
  \<^verbatim>\<open>shape[-1]\<close> on an empty list raises \<^verbatim>\<open>IndexError\<close>; \<^verbatim>\<open>shape[-2]\<close> is only read
  when \<^verbatim>\<open>len(shape) > 1\<close>. The division raises \<^verbatim>\<open>ZeroDivisionError\<close> when
  \<^verbatim>\<open>fan_in + fan_out\<close> is zero. Both happen before the method is looked up, and the
  dictionary literal builds both initializers whatever the method is.
\<close>

definition initializer :: "int list \<Rightarrow> dtype \<Rightarrow> string option \<Rightarrow> tf_initializer result" where
  "initializer shape data_type method =
     (if shape = [] then Inl IndexError
      else
        let fan_in0 = (if length shape > 1 then shape ! (length shape - 2) else last shape);
            fan_out0 = last shape;
            (fan_in, fan_out) = fan_loop (take (length shape - 2) shape) (fan_in0, fan_out0)
        in if fan_in + fan_out = 0 then Inl ZeroDivisionError
           else
             let gu_val = Pow (TrueDiv (IntLit 6) (IntLit (fan_in + fan_out))) FloatHalf;
                 method' = or_default method ''zeros''
             in dict_lookup
                  [(''glorot_uniform'', RandomUniformInitializer (Neg gu_val) gu_val data_type),
                   (''zeros'', ZerosInitializer data_type)]
                  method')"

subsection \<open>\<^verbatim>\<open>cnn_variable\<close>\<close>

text \<open>
  The first argument is the name of the variable scope that the caller has entered
  (\<^verbatim>\<open>with tf.variable_scope(name)\<close>); the device is the one of
  \<^verbatim>\<open>with tf.device('/cpu:0')\<close>. For a data type that is not floating the function
  executes \<^verbatim>\<open>return TypeError(...)\<close>: the exception object is the returned value.
\<close>

definition cnn_variable ::
  "string \<Rightarrow> string \<Rightarrow> int list \<Rightarrow> string option \<Rightarrow> dtype \<Rightarrow> graph \<Rightarrow> pyobj result \<times> graph" where
  "cnn_variable scope name shape init_method data_type g =
     (if \<not> is_floating data_type
      then (Inr (ExceptionObject
              (TypeError ''Variables must be initialized as floating point.'')), g)
      else
        case initializer shape data_type init_method of
          Inl e \<Rightarrow> (Inl e, g)
        | Inr init \<Rightarrow>
            let variable = Variable scope ''/cpu:0'' name shape data_type init
            in (Inr variable, g @ [GetVariable variable]))"

subsection \<open>\<^verbatim>\<open>_activation\<close>\<close>

text \<open>
  The dictionary literal calls all four framework activations on the input, in the order
  of the literal, before the method is looked up.
\<close>

definition activation :: "tensor \<Rightarrow> string option \<Rightarrow> graph \<Rightarrow> tensor result \<times> graph" where
  "activation input_tensor method g =
     (let method' = or_default method ''linear'';
          g' = g @ [TensorOp (Relu input_tensor), TensorOp (Sigmoid input_tensor),
                    TensorOp (Softmax input_tensor), TensorOp (Tanh input_tensor)]
      in (dict_lookup
            [(''linear'', input_tensor),
             (''relu'', Relu input_tensor),
             (''sigmoid'', Sigmoid input_tensor),
             (''softmax'', Softmax input_tensor),
             (''tanh'', Tanh input_tensor)]
            method', g'))"

section \<open>CNNBuilder\<close>

record cnn_builder =
  top_layer :: tensor
  num_top_channels :: int
  is_train_phase :: bool
  padding_mode :: string
  data_format :: string
  data_type :: dtype
  layer_counts :: "string \<rightharpoonup> int"

text \<open>\<^verbatim>\<open>__init__\<close>, with \<^verbatim>\<open>layer_counts = defaultdict(int)\<close>.\<close>

definition init :: "tensor \<Rightarrow> int \<Rightarrow> bool \<Rightarrow> string \<Rightarrow> string \<Rightarrow> dtype \<Rightarrow> cnn_builder" where
  "init input_layer num_input_channels train padding fmt dt =
     \<lparr>top_layer = input_layer, num_top_channels = num_input_channels,
      is_train_phase = train, padding_mode = padding, data_format = fmt,
      data_type = dt, layer_counts = Map.empty\<rparr>"

text \<open>Reading a \<^verbatim>\<open>defaultdict(int)\<close>: a missing key reads as 0.\<close>

definition layer_count :: "(string \<rightharpoonup> int) \<Rightarrow> string \<Rightarrow> int" where
  "layer_count m prefix = (case m prefix of None \<Rightarrow> 0 | Some c \<Rightarrow> c)"

text \<open>The format \<^verbatim>\<open>{1:d}\<close>: decimal digits, with a minus sign for a negative number.\<close>

definition digit_char :: "nat \<Rightarrow> char" where
  "digit_char d = ''0123456789'' ! d"

fun dec_nat :: "nat \<Rightarrow> string" where
  "dec_nat n =
     (if n < 10 then [digit_char n]
      else dec_nat (n div 10) @ [digit_char (n mod 10)])"

declare dec_nat.simps [simp del]

definition format_d :: "int \<Rightarrow> string" where
  "format_d i = (if i < 0 then CHR ''-'' # dec_nat (nat (- i)) else dec_nat (nat i))"

definition get_name :: "string \<Rightarrow> cnn_builder \<Rightarrow> string \<times> cnn_builder" where
  "get_name prefix b =
     (let c = layer_count (layer_counts b) prefix;
          name = prefix @ format_d c
      in (name, b\<lparr>layer_counts := (layer_counts b)(prefix \<mapsto> c + 1)\<rparr>))"

type_synonym method_result = "(tensor \<times> int) result \<times> cnn_builder \<times> graph"

definition add_layer :: "tensor \<Rightarrow> int \<Rightarrow> cnn_builder \<Rightarrow> graph \<Rightarrow> method_result" where
  "add_layer layer num_layer_channels b g =
     (let b' = b\<lparr>top_layer := layer, num_top_channels := num_layer_channels\<rparr>
      in (Inr (top_layer b', num_top_channels b'), b', g))"

definition convolution ::
  "int \<Rightarrow> int \<Rightarrow> int \<Rightarrow> int \<Rightarrow> int \<Rightarrow> string option \<Rightarrow> cnn_builder \<Rightarrow> graph \<Rightarrow> method_result" where
  "convolution num_out_channels filter_height filter_width vertical_stride horizontal_stride
       activation_method b g =
     (let (name, b1) = get_name ''conv'' b;
          filter_shape = [filter_height, filter_width, num_top_channels b1, num_out_channels]
      in case cnn_variable name ''filter'' filter_shape (Some ''glorot_uniform'')
                (data_type b1) g of
           (Inl e, g1) \<Rightarrow> (Inl e, b1, g1)
         | (Inr filter', g1) \<Rightarrow>
             let strides = [1, vertical_stride, horizontal_stride, 1];
                 strides' = (if data_format b1 = ''NCHW''
                             then [strides ! 0, strides ! 3, strides ! 1, strides ! 2]
                             else strides);
                 conv = Conv2d (top_layer b1) filter' strides' (padding_mode b1) (data_format b1);
                 g2 = g1 @ [TensorOp conv]
             in case cnn_variable name ''biases'' [num_out_channels] (Some ''zeros'')
                       (data_type b1) g2 of
                  (Inl e, g3) \<Rightarrow> (Inl e, b1, g3)
                | (Inr biases, g3) \<Rightarrow>
                    let pre_activation = BiasAdd conv biases (data_format b1);
                        g4 = g3 @ [TensorOp pre_activation]
                    in case activation pre_activation activation_method g4 of
                         (Inl e, g5) \<Rightarrow> (Inl e, b1, g5)
                       | (Inr conv1, g5) \<Rightarrow>
                           let b2 = b1\<lparr>top_layer := conv1,
                                       num_top_channels := num_out_channels\<rparr>
                           in (Inr (top_layer b2, num_top_channels b2), b2, g5))"

definition dropout :: "real \<Rightarrow> cnn_builder \<Rightarrow> graph \<Rightarrow> method_result" where
  "dropout keep_prob b g =
     (let (name, b1) = get_name ''dropout'' b;
          keep_prob' = (if \<not> is_train_phase b1 then 1.0 else keep_prob);
          dropped = Dropout (top_layer b1) keep_prob' name;
          g1 = g @ [TensorOp dropped];
          b2 = b1\<lparr>top_layer := dropped\<rparr>
      in (Inr (top_layer b2, num_top_channels b2), b2, g1))"

definition fully_connected ::
  "int \<Rightarrow> string option \<Rightarrow> cnn_builder \<Rightarrow> graph \<Rightarrow> method_result" where
  "fully_connected num_out_channels activation_method b g =
     (let (name, b1) = get_name ''fc'' b;
          shape = [num_top_channels b1, num_out_channels]
      in case cnn_variable name ''weights'' shape (Some ''glorot_uniform'') (data_type b1) g of
           (Inl e, g1) \<Rightarrow> (Inl e, b1, g1)
         | (Inr weights, g1) \<Rightarrow>
             (case cnn_variable name ''biases'' [num_out_channels] (Some ''zeros'')
                     (data_type b1) g1 of
                (Inl e, g2) \<Rightarrow> (Inl e, b1, g2)
              | (Inr biases, g2) \<Rightarrow>
                  let matmul = MatMul (top_layer b1) weights;
                      pre_activation = Add matmul biases;
                      g3 = g2 @ [TensorOp matmul, TensorOp pre_activation]
                  in case activation pre_activation activation_method g3 of
                       (Inl e, g4) \<Rightarrow> (Inl e, b1, g4)
                     | (Inr fc, g4) \<Rightarrow>
                         let b2 = b1\<lparr>top_layer := fc, num_top_channels := num_out_channels\<rparr>
                         in (Inr (top_layer b2, num_top_channels b2), b2, g4)))"

definition max_pooling ::
  "int \<Rightarrow> int \<Rightarrow> int \<Rightarrow> int \<Rightarrow> cnn_builder \<Rightarrow> graph \<Rightarrow> method_result" where
  "max_pooling pool_height pool_width vertical_stride horizontal_stride b g =
     (let (name, b1) = get_name ''mpool'' b;
          window = [1, pool_height, pool_width, 1];
          strides = [1, vertical_stride, horizontal_stride, 1];
          pool = MaxPool (top_layer b1) window strides (padding_mode b1) (data_format b1) name;
          g1 = g @ [TensorOp pool];
          b2 = b1\<lparr>top_layer := pool\<rparr>
      in (Inr (top_layer b2, num_top_channels b2), b2, g1))"

definition normalization ::
  "real option \<Rightarrow> real option \<Rightarrow> real option \<Rightarrow> real option \<Rightarrow> cnn_builder \<Rightarrow> graph
     \<Rightarrow> method_result" where
  "normalization depth_radius bias alpha beta b g =
     (let (name, b1) = get_name ''norm'' b;
          norm' = LocalResponseNormalization (top_layer b1) depth_radius bias alpha beta name;
          g1 = g @ [TensorOp norm'];
          b2 = b1\<lparr>top_layer := norm'\<rparr>
      in (Inr (top_layer b2, num_top_channels b2), b2, g1))"

text \<open>
  \<^verbatim>\<open>reshape\<close> calls the framework first and reads \<^verbatim>\<open>shape[-1]\<close> afterwards, so an
  empty shape raises \<^verbatim>\<open>IndexError\<close> with the reshape already in the graph and
  \<^verbatim>\<open>top_layer\<close> already replaced.
\<close>

definition reshape :: "int list \<Rightarrow> cnn_builder \<Rightarrow> graph \<Rightarrow> method_result" where
  "reshape shape b g =
     (let (name, b1) = get_name ''reshape'' b;
          reshaped = Reshape (top_layer b1) shape name;
          g1 = g @ [TensorOp reshaped];
          b2 = b1\<lparr>top_layer := reshaped\<rparr>
      in if shape = [] then (Inl IndexError, b2, g1)
         else
           let b3 = b2\<lparr>num_top_channels := last shape\<rparr>
           in (Inr (top_layer b3, num_top_channels b3), b3, g1))"

section \<open>SimpleModel\<close>


text \<open>
  A statement whose result is dropped: an exception ends the method, otherwise the next
  statement runs on the new builder and graph.
\<close>

definition and_then ::
  "(cnn_builder \<Rightarrow> graph \<Rightarrow> method_result) \<Rightarrow> (cnn_builder \<Rightarrow> graph \<Rightarrow> method_result)
     \<Rightarrow> cnn_builder \<Rightarrow> graph \<Rightarrow> method_result" where
  "and_then first rest b g =
     (case first b g of
        (Inl e, b', g') \<Rightarrow> (Inl e, b', g')
      | (Inr _, b', g') \<Rightarrow> rest b' g')"


section \<open>Vocabulary of the properties\<close>

text \<open>The layer-adding methods of the builder, as values, and the call of one of them.\<close>

datatype method_call =
    AddLayer tensor int
  | Convolution int int int int int "string option"
  | DropoutLayer real
  | FullyConnected int "string option"
  | MaxPooling int int int int
  | Normalization "real option" "real option" "real option" "real option"
  | ReshapeTo "int list"

fun call :: "method_call \<Rightarrow> cnn_builder \<Rightarrow> graph \<Rightarrow> method_result" where
  "call (AddLayer layer n) = add_layer layer n"
| "call (Convolution n fh fw v h act) = convolution n fh fw v h act"
| "call (DropoutLayer keep_prob) = dropout keep_prob"
| "call (FullyConnected n act) = fully_connected n act"
| "call (MaxPooling ph pw v h) = max_pooling ph pw v h"
| "call (Normalization depth_radius bias alpha beta) = normalization depth_radius bias alpha beta"
| "call (ReshapeTo shape) = reshape shape"


text \<open>
  The prefix that a method hands to \<^verbatim>\<open>_get_name\<close>; \<^verbatim>\<open>add_layer\<close> asks for no name.
\<close>

fun call_prefix :: "method_call \<Rightarrow> string option" where
  "call_prefix (AddLayer _ _) = None"
| "call_prefix (Convolution _ _ _ _ _ _) = Some ''conv''"
| "call_prefix (DropoutLayer _) = Some ''dropout''"
| "call_prefix (FullyConnected _ _) = Some ''fc''"
| "call_prefix (MaxPooling _ _ _ _) = Some ''mpool''"
| "call_prefix (Normalization _ _ _ _) = Some ''norm''"
| "call_prefix (ReshapeTo _) = Some ''reshape''"

text \<open>
  The builder and graph after a list of calls, whatever each call returned or raised: a
  method that raises has still changed the builder up to that point.
\<close>

fun after_calls :: "method_call list \<Rightarrow> cnn_builder \<Rightarrow> graph \<Rightarrow> cnn_builder \<times> graph" where
  "after_calls [] b g = (b, g)"
| "after_calls (c # cs) b g = (let (r, b', g') = call c b g in after_calls cs b' g')"

text \<open>A sequence of \<^verbatim>\<open>_get_name\<close> calls: the names returned, and the builder left.\<close>

fun get_names :: "string list \<Rightarrow> cnn_builder \<Rightarrow> string list \<times> cnn_builder" where
  "get_names [] b = ([], b)"
| "get_names (p # ps) b =
     (let (name, b1) = get_name p b;
          (names, b2) = get_names ps b1
      in (name # names, b2))"

text \<open>The strides of the \<^verbatim>\<open>tf.nn.conv2d\<close> calls of a graph, in order.\<close>

fun conv2d_strides :: "graph \<Rightarrow> int list list" where
  "conv2d_strides [] = []"
| "conv2d_strides (TensorOp (Conv2d _ _ strides _ _) # g) = strides # conv2d_strides g"
| "conv2d_strides (_ # g) = conv2d_strides g"

text \<open>The \<^verbatim>\<open>tf.get_variable\<close> calls of a graph, in order.\<close>

fun get_variable_calls :: "graph \<Rightarrow> pyobj list" where
  "get_variable_calls [] = []"
| "get_variable_calls (GetVariable v # g) = v # get_variable_calls g"
| "get_variable_calls (_ # g) = get_variable_calls g"

text \<open>
  The fans as the specification words them: \<^verbatim>\<open>shape[-1]\<close>, respectively \<^verbatim>\<open>shape[-2]\<close>
  (or \<^verbatim>\<open>shape[-1]\<close> for a shape of one dimension), times the product of \<^verbatim>\<open>shape[:-2]\<close>.
\<close>

definition spec_fan_out :: "int list \<Rightarrow> int" where
  "spec_fan_out shape = last shape * prod_list (take (length shape - 2) shape)"

definition spec_fan_in :: "int list \<Rightarrow> int" where
  "spec_fan_in shape =
     (if length shape = 1 then last shape else shape ! (length shape - 2))
       * prod_list (take (length shape - 2) shape)"

definition spec_bound :: "int list \<Rightarrow> pynum" where
  "spec_bound shape =
     Pow (TrueDiv (IntLit 6) (IntLit (spec_fan_in shape + spec_fan_out shape))) FloatHalf"




text \<open>A builder as a caller makes it, with the default padding mode, data format and data type.\<close>

definition example_builder :: cnn_builder where
  "example_builder = init (InputTensor 0) 3 True ''SAME'' ''NCHW'' float32"

section \<open>Properties\<close>

lemma fan_loop_prod: "fan_loop ds (a, b) = (a * prod_list ds, b * prod_list ds)"
  by (induction ds arbitrary: a b) (auto simp: algebra_simps)

lemma dec_nat_nonempty: "dec_nat n \<noteq> []"
  by (subst dec_nat.simps) simp

lemma digit_char_inj: "a < 10 \<Longrightarrow> b < 10 \<Longrightarrow> digit_char a = digit_char b \<Longrightarrow> a = b"
proof -
  assume small: "a < 10" "b < 10" and same: "digit_char a = digit_char b"
  have "distinct ''0123456789''" by simp
  with small same show "a = b"
    unfolding digit_char_def by (simp add: nth_eq_iff_index_eq)
qed

lemma dec_nat_inj: "dec_nat m = dec_nat n \<Longrightarrow> m = n"
proof (induction m arbitrary: n rule: dec_nat.induct)
  case (1 m)
  show ?case
  proof (cases "m < 10")
    case small_m: True
    show ?thesis
    proof (cases "n < 10")
      case True
      with small_m "1.prems" show ?thesis
        by (simp add: dec_nat.simps [of m] dec_nat.simps [of n] digit_char_inj)
    next
      case False
      with small_m "1.prems" dec_nat_nonempty [of "n div 10"] show ?thesis
        by (simp add: dec_nat.simps [of m] dec_nat.simps [of n])
    qed
  next
    case big_m: False
    show ?thesis
    proof (cases "n < 10")
      case True
      with big_m "1.prems" dec_nat_nonempty [of "m div 10"] show ?thesis
        by (simp add: dec_nat.simps [of m] dec_nat.simps [of n])
    next
      case False
      with big_m "1.prems" have eq: "dec_nat (m div 10) = dec_nat (n div 10)"
        and ch: "digit_char (m mod 10) = digit_char (n mod 10)"
        by (simp_all add: dec_nat.simps [of m] dec_nat.simps [of n])
      from "1.IH" [OF big_m eq] have d: "m div 10 = n div 10" .
      from ch have r: "m mod 10 = n mod 10"
        by (intro digit_char_inj) simp_all
      from d r show ?thesis
        by (metis div_mult_mod_eq)
    qed
  qed
qed

lemma format_d_inj: "0 \<le> i \<Longrightarrow> 0 \<le> j \<Longrightarrow> format_d i = format_d j \<Longrightarrow> i = j"
  using dec_nat_inj [of "nat i" "nat j"] by (simp add: format_d_def)

lemma get_name_fst: "fst (get_name p b) = p @ format_d (layer_count (layer_counts b) p)"
  by (simp add: get_name_def Let_def)

lemma get_name_count:
  "layer_count (layer_counts (snd (get_name p b))) q =
     (if q = p then layer_count (layer_counts b) p + 1 else layer_count (layer_counts b) q)"
  by (simp add: get_name_def Let_def layer_count_def)

lemma get_names_Cons_fst:
  "fst (get_names (p # ps) b) = fst (get_name p b) # fst (get_names ps (snd (get_name p b)))"
  by (simp add: case_prod_unfold Let_def)

lemma get_names_Cons_snd:
  "snd (get_names (p # ps) b) = snd (get_names ps (snd (get_name p b)))"
  by (simp add: case_prod_unfold Let_def)

lemma get_names_count:
  "layer_count (layer_counts (snd (get_names ps b))) q =
     layer_count (layer_counts b) q + int (count_list ps q)"
proof (induction ps arbitrary: b)
  case Nil
  show ?case by simp
next
  case (Cons p ps)
  show ?case
    by (simp only: get_names_Cons_snd Cons.IH get_name_count) simp
qed

lemma get_names_length: "length (fst (get_names ps b)) = length ps"
proof (induction ps arbitrary: b)
  case Nil
  show ?case by simp
next
  case (Cons p ps)
  show ?case
    by (simp only: get_names_Cons_fst Cons.IH list.size)
qed

lemma get_names_nth:
  "i < length ps \<Longrightarrow>
     fst (get_names ps b) ! i =
       ps ! i @ format_d (layer_count (layer_counts b) (ps ! i) + int (count_list (take i ps) (ps ! i)))"
proof (induction ps arbitrary: b i)
  case Nil
  then show ?case by simp
next
  case (Cons p ps)
  show ?case
  proof (cases i)
    case 0
    then show ?thesis
      by (simp only: get_names_Cons_fst get_name_fst) simp
  next
    case (Suc k)
    with Cons.prems have k: "k < length ps" by simp
    from Suc Cons.IH [OF k, of "snd (get_name p b)"] show ?thesis
      by (simp only: get_names_Cons_fst get_name_count) (simp add: ac_simps)
  qed
qed

lemma count_list_take_less:
  "i < j \<Longrightarrow> j \<le> length ps \<Longrightarrow> count_list (take i ps) (ps ! i) < count_list (take j ps) (ps ! i)"
proof (induction ps arbitrary: i j)
  case Nil
  then show ?case by simp
next
  case (Cons p ps)
  from Cons.prems obtain j' where j: "j = Suc j'" by (cases j) auto
  show ?case
  proof (cases i)
    case 0
    with j show ?thesis by simp
  next
    case (Suc i')
    with j Cons.prems have "i' < j'" "j' \<le> length ps" by simp_all
    from Cons.IH [OF this] Suc j show ?thesis by simp
  qed
qed


lemma get_names_from_init:
  "(let (names, b') = get_names ps (init input_layer n train padding fmt dt)
    in length names = length ps
       \<and> (\<forall>p. layer_count (layer_counts b') p = int (count_list ps p))
       \<and> (\<forall>i < length ps. names ! i = ps ! i @ format_d (int (count_list (take i ps) (ps ! i))))
       \<and> (\<forall>i j. i < j \<and> j < length ps \<and> ps ! i = ps ! j \<longrightarrow> names ! i \<noteq> names ! j))"
proof -
  let ?b = "init input_layer n train padding fmt dt"
  have zero: "layer_count (layer_counts ?b) p = 0" for p
    by (simp add: init_def layer_count_def)
  have len: "length (fst (get_names ps ?b)) = length ps"
    by (rule get_names_length)
  have cnt: "layer_count (layer_counts (snd (get_names ps ?b))) p = int (count_list ps p)" for p
    by (simp add: get_names_count zero)
  have nth: "fst (get_names ps ?b) ! i = ps ! i @ format_d (int (count_list (take i ps) (ps ! i)))"
    if "i < length ps" for i
    using get_names_nth [OF that, of ?b] by (simp add: zero)
  have neq: "fst (get_names ps ?b) ! i \<noteq> fst (get_names ps ?b) ! j"
    if "i < j" "j < length ps" "ps ! i = ps ! j" for i j
  proof
    assume same: "fst (get_names ps ?b) ! i = fst (get_names ps ?b) ! j"
    from that have i: "i < length ps" by simp
    from same nth [OF i] nth [OF that(2)] that(3)
    have "format_d (int (count_list (take i ps) (ps ! i))) = format_d (int (count_list (take j ps) (ps ! i)))"
      by simp
    then have "int (count_list (take i ps) (ps ! i)) = int (count_list (take j ps) (ps ! i))"
      by (intro format_d_inj) simp_all
    moreover from that have "count_list (take i ps) (ps ! i) < count_list (take j ps) (ps ! i)"
      by (intro count_list_take_less) simp_all
    ultimately show False by simp
  qed
  from len cnt nth neq show ?thesis
    by (simp add: case_prod_unfold)
qed

lemmas method_defs =
  add_layer_def convolution_def dropout_def fully_connected_def max_pooling_def
  normalization_def reshape_def

lemma call_layer_counts:
  "layer_counts (fst (snd (call c b g))) =
     (case call_prefix c of None \<Rightarrow> layer_counts b
      | Some p \<Rightarrow> layer_counts (snd (get_name p b)))"
  by (cases c)
     (simp_all add: method_defs Let_def case_prod_unfold split: sum.splits prod.splits)

lemma call_layer_count:
  "layer_count (layer_counts (fst (snd (call c b g)))) p =
     layer_count (layer_counts b) p + (if call_prefix c = Some p then 1 else 0)"
  by (cases "call_prefix c") (auto simp: call_layer_counts get_name_count)

lemma after_calls_count:
  "layer_count (layer_counts (fst (after_calls cs b g))) p =
     layer_count (layer_counts b) p + int (count_list (map call_prefix cs) (Some p))"
proof (induction cs arbitrary: b g)
  case Nil
  show ?case by simp
next
  case (Cons c cs)
  have "after_calls (c # cs) b g = after_calls cs (fst (snd (call c b g))) (snd (snd (call c b g)))"
    by (simp add: case_prod_unfold Let_def)
  then show ?case
    by (simp add: Cons.IH call_layer_count)
qed

text \<open>
  Claim C8. Starting from a new builder, after any sequence of \<^verbatim>\<open>_get_name\<close> calls
  with prefixes \<open>ps\<close>: the counter of every prefix equals the number of calls made with that
  prefix; the \<open>i\<close>-th call returned its prefix followed by the decimal count of the earlier
  calls with the same prefix; and two different calls with the same prefix returned
  different names. The methods of the builder reach the counters through \<^verbatim>\<open>_get_name\<close>
  only: after any list of method calls on a new builder, returned or raised, the counter of
  a prefix is the number of those calls that ask for a name with it.
\<close>

theorem get_name_counter:
  "(let (names, b') = get_names ps (init input_layer n train padding fmt dt)
    in length names = length ps
       \<and> (\<forall>p. layer_count (layer_counts b') p = int (count_list ps p))
       \<and> (\<forall>i < length ps. names ! i = ps ! i @ format_d (int (count_list (take i ps) (ps ! i))))
       \<and> (\<forall>i j. i < j \<and> j < length ps \<and> ps ! i = ps ! j \<longrightarrow> names ! i \<noteq> names ! j))
   \<and> (\<forall>p. layer_count
            (layer_counts (fst (after_calls cs (init input_layer n train padding fmt dt) g))) p =
          int (count_list (map call_prefix cs) (Some p)))"
proof -
  have "layer_count (layer_counts (init input_layer n train padding fmt dt)) p = 0" for p
    by (simp add: init_def layer_count_def)
  then have "\<forall>p. layer_count
            (layer_counts (fst (after_calls cs (init input_layer n train padding fmt dt) g))) p =
          int (count_list (map call_prefix cs) (Some p))"
    by (simp add: after_calls_count)
  with get_names_from_init [of ps input_layer n train padding fmt dt] show ?thesis
    by (simp only: simp_thms)
qed

text \<open>
  Three \<^verbatim>\<open>_get_name\<close> calls, two of them with the prefix \<^verbatim>\<open>conv\<close>; and three method
  calls, the second of which raises after it has taken its name.
\<close>

theorem get_name_counter_witness:
  "(let (names, b') = get_names [''conv'', ''fc'', ''conv'']
                        (init (InputTensor 0) 3 True ''SAME'' ''NCHW'' float32)
    in names = [''conv0'', ''fc0'', ''conv1''] \<and> layer_count (layer_counts b') ''conv'' = 2
       \<and> (0::nat) < 2 \<and> (2::nat) < length [''conv'', ''fc'', ''conv''] \<and> names ! 0 \<noteq> names ! 2)
   \<and> layer_count
        (layer_counts (fst (after_calls
           [Convolution 64 3 3 1 1 (Some ''relu''), Convolution 0 3 3 1 1 (Some ''relu''),
            MaxPooling 3 3 2 2]
           (init (InputTensor 0) 3 True ''SAME'' ''NCHW'' float32) []))) ''conv'' = 2"
proof -
  note inst = get_name_counter [where ps = "[''conv'', ''fc'', ''conv'']"
      and input_layer = "InputTensor 0" and n = 3 and train = True and padding = "''SAME''"
      and fmt = "''NCHW''" and dt = float32
      and cs = "[Convolution 64 3 3 1 1 (Some ''relu''), Convolution 0 3 3 1 1 (Some ''relu''),
                 MaxPooling 3 3 2 2]" and g = "[]"]
  from inst [THEN conjunct1]
  have "(let (names, b') = get_names [''conv'', ''fc'', ''conv'']
                        (init (InputTensor 0) 3 True ''SAME'' ''NCHW'' float32)
    in names = [''conv0'', ''fc0'', ''conv1''] \<and> layer_count (layer_counts b') ''conv'' = 2
       \<and> (0::nat) < 2 \<and> (2::nat) < length [''conv'', ''fc'', ''conv''] \<and> names ! 0 \<noteq> names ! 2)"
    by (simp add: get_name_def init_def layer_count_def format_d_def dec_nat.simps digit_char_def)
  moreover from inst [THEN conjunct2, rule_format, of "''conv''"]
  have "layer_count
        (layer_counts (fst (after_calls
           [Convolution 64 3 3 1 1 (Some ''relu''), Convolution 0 3 3 1 1 (Some ''relu''),
            MaxPooling 3 3 2 2]
           (init (InputTensor 0) 3 True ''SAME'' ''NCHW'' float32) []))) ''conv'' = 2"
    by simp
  ultimately show ?thesis by (rule conjI)
qed

text \<open>
  Claim C9. When a layer-adding method returns, the pair it returns is the pair of the
  fields \<^verbatim>\<open>top_layer\<close> and \<^verbatim>\<open>num_top_channels\<close> of the builder after the call.
\<close>

theorem returned_cursor_is_stored_cursor:
  "call c b g = (Inr (t, n), b', g') \<Longrightarrow> t = top_layer b' \<and> n = num_top_channels b'"
  by (cases c)
     (auto simp: method_defs Let_def case_prod_unfold split: sum.splits prod.splits if_splits)

text \<open>
  Claim C10. \<^verbatim>\<open>dropout\<close> makes one framework call, with keep probability 1.0 outside the
  training phase and with the caller's keep probability in the training phase; outside the
  training phase the whole outcome is the same for any other keep probability; the channel
  count is unchanged.
\<close>

theorem dropout_keep_prob:
  "(let name = ''dropout'' @ format_d (layer_count (layer_counts b) ''dropout'');
        (r, b', g') = dropout keep_prob b g;
        passed = (if is_train_phase b then keep_prob else 1)
    in g' = g @ [TensorOp (Dropout (top_layer b) passed name)]
       \<and> r = Inr (Dropout (top_layer b) passed name, num_top_channels b)
       \<and> num_top_channels b' = num_top_channels b
       \<and> (\<not> is_train_phase b \<longrightarrow> dropout keep_prob b g = dropout other_keep_prob b g))"
  by (simp add: dropout_def get_name_def Let_def)

lemma conv2d_strides_append: "conv2d_strides (g @ g') = conv2d_strides g @ conv2d_strides g'"
  by (induction g rule: conv2d_strides.induct) simp_all

lemma cnn_variable_strides:
  "conv2d_strides (snd (cnn_variable scope name shape m dt g)) = conv2d_strides g"
  by (simp add: cnn_variable_def Let_def conv2d_strides_append split: sum.splits)

lemma activation_strides: "conv2d_strides (snd (activation t m g)) = conv2d_strides g"
  by (simp add: activation_def Let_def conv2d_strides_append)

lemma initializer_fans:
  "shape \<noteq> [] \<Longrightarrow>
     fan_loop (take (length shape - 2) shape)
       (if length shape > 1 then shape ! (length shape - 2) else last shape, last shape)
     = (spec_fan_in shape, spec_fan_out shape)"
  by (cases shape) (auto simp: fan_loop_prod spec_fan_in_def spec_fan_out_def)

lemma initializer_eq:
  "initializer shape dt method =
     (if shape = [] then Inl IndexError
      else if spec_fan_in shape + spec_fan_out shape = 0 then Inl ZeroDivisionError
      else dict_lookup
             [(''glorot_uniform'', RandomUniformInitializer (Neg (spec_bound shape)) (spec_bound shape) dt),
              (''zeros'', ZerosInitializer dt)]
             (or_default method ''zeros''))"
proof (cases "shape = []")
  case True
  then show ?thesis by (simp add: initializer_def)
next
  case False
  have "initializer shape dt method =
          (if spec_fan_in shape + spec_fan_out shape = 0 then Inl ZeroDivisionError
           else dict_lookup
             [(''glorot_uniform'', RandomUniformInitializer (Neg (spec_bound shape)) (spec_bound shape) dt),
              (''zeros'', ZerosInitializer dt)]
             (or_default method ''zeros''))"
    by (simp only: initializer_def Let_def initializer_fans [OF False] False if_False
          prod.case spec_bound_def)
  with False show ?thesis by simp
qed


lemmas eval_defs =
  example_builder_def init_def float32_def int32_def get_name_def layer_count_def format_d_def
  dec_nat.simps digit_char_def Let_def cnn_variable_def initializer_def activation_def
  or_default_def dict_lookup_def and_then_def

text \<open>A pooling layer on the example builder.\<close>

theorem returned_cursor_is_stored_cursor_witness:
  "top_layer (fst (snd (call (MaxPooling 3 3 2 2) example_builder []))) =
     MaxPool (InputTensor 0) [1, 3, 3, 1] [1, 2, 2, 1] ''SAME'' ''NCHW'' ''mpool0''
   \<and> num_top_channels (fst (snd (call (MaxPooling 3 3 2 2) example_builder []))) = 3"
proof -
  let ?r = "call (MaxPooling 3 3 2 2) example_builder []"
  have h: "?r = (Inr (MaxPool (InputTensor 0) [1, 3, 3, 1] [1, 2, 2, 1] ''SAME'' ''NCHW'' ''mpool0'', 3),
                 fst (snd ?r), snd (snd ?r))"
    by (simp add: max_pooling_def eval_defs)
  from returned_cursor_is_stored_cursor [OF h] show ?thesis by simp
qed

text \<open>The example builder in both phases.\<close>

theorem dropout_keep_prob_witness:
  "snd (snd (dropout 0.5 (example_builder\<lparr>is_train_phase := False\<rparr>) [])) =
     [TensorOp (Dropout (InputTensor 0) 1 ''dropout0'')]
   \<and> dropout 0.5 (example_builder\<lparr>is_train_phase := False\<rparr>) [] =
       dropout 0.9 (example_builder\<lparr>is_train_phase := False\<rparr>) []
   \<and> snd (snd (dropout 0.5 example_builder [])) =
       [TensorOp (Dropout (InputTensor 0) 0.5 ''dropout0'')]"
proof -
  note test = dropout_keep_prob [where b = "example_builder\<lparr>is_train_phase := False\<rparr>"
      and keep_prob = "0.5" and g = "[]" and other_keep_prob = "0.9"]
  note test' = dropout_keep_prob [where b = "example_builder\<lparr>is_train_phase := False\<rparr>"
      and keep_prob = "0.5" and g = "[]" and other_keep_prob = "0.5"]
  note train = dropout_keep_prob [where b = example_builder and keep_prob = "0.5" and g = "[]"
      and other_keep_prob = "0.9"]
  from test' have "snd (snd (dropout 0.5 (example_builder\<lparr>is_train_phase := False\<rparr>) [])) =
     [TensorOp (Dropout (InputTensor 0) 1 ''dropout0'')]"
    by (simp add: case_prod_unfold eval_defs)
  moreover from test have "dropout 0.5 (example_builder\<lparr>is_train_phase := False\<rparr>) [] =
       dropout 0.9 (example_builder\<lparr>is_train_phase := False\<rparr>) []"
    by (simp add: case_prod_unfold eval_defs)
  moreover from train have "snd (snd (dropout 0.5 example_builder [])) =
       [TensorOp (Dropout (InputTensor 0) 0.5 ''dropout0'')]"
    by (simp add: case_prod_unfold eval_defs)
  ultimately show ?thesis by blast
qed

lemma get_name_fields:
  "top_layer (snd (get_name p b)) = top_layer b"
  "num_top_channels (snd (get_name p b)) = num_top_channels b"
  "is_train_phase (snd (get_name p b)) = is_train_phase b"
  "padding_mode (snd (get_name p b)) = padding_mode b"
  "data_format (snd (get_name p b)) = data_format b"
  "data_type (snd (get_name p b)) = data_type b"
  by (simp_all add: get_name_def Let_def)

lemma glorot_variable_raises:
  "is_floating dt \<Longrightarrow> shape \<noteq> [] \<Longrightarrow> spec_fan_in shape + spec_fan_out shape = 0 \<Longrightarrow>
     cnn_variable scope name shape (Some ''glorot_uniform'') dt g = (Inl ZeroDivisionError, g)"
  by (simp add: cnn_variable_def initializer_eq)

lemma glorot_variable_returns:
  "\<not> (is_floating dt \<and> spec_fan_in shape + spec_fan_out shape = 0) \<Longrightarrow> shape \<noteq> [] \<Longrightarrow>
     \<exists>v. fst (cnn_variable scope name shape (Some ''glorot_uniform'') dt g) = Inr v"
  by (auto simp: cnn_variable_def initializer_eq or_default_def dict_lookup_def Let_def)

text \<open>
  Claim C4. The \<^verbatim>\<open>tf.nn.conv2d\<close> call of \<^verbatim>\<open>convolution\<close> receives the strides
  \<open>[1, 1, v, h]\<close> when the data format is \<^verbatim>\<open>NCHW\<close> and \<open>[1, v, h, 1]\<close> for any other
  data format. The call is made exactly once, unless the creation of the filter variable
  has raised \<^verbatim>\<open>ZeroDivisionError\<close> before it, in which case no convolution is requested.
\<close>

theorem convolution_strides:
  "conv2d_strides (snd (snd (convolution n fh fw v h act b g))) =
     conv2d_strides g @
       (if is_floating (data_type b)
           \<and> spec_fan_in [fh, fw, num_top_channels b, n] + spec_fan_out [fh, fw, num_top_channels b, n] = 0
        then []
        else [if data_format b = ''NCHW'' then [1, 1, v, h] else [1, v, h, 1]])"
proof -
  let ?name = "fst (get_name ''conv'' b)" and ?b1 = "snd (get_name ''conv'' b)"
  let ?shape = "[fh, fw, num_top_channels b, n]"
  let ?filter = "cnn_variable ?name ''filter'' ?shape (Some ''glorot_uniform'') (data_type b) g"
  let ?strides = "if data_format b = ''NCHW'' then [1, 1, v, h] else [1, v, h, 1]"
  show ?thesis
  proof (cases "is_floating (data_type b) \<and> spec_fan_in ?shape + spec_fan_out ?shape = 0")
    case True
    then have "?filter = (Inl ZeroDivisionError, g)"
      by (intro glorot_variable_raises) simp_all
    with True show ?thesis
      by (simp add: convolution_def case_prod_unfold get_name_fields)
  next
    case False
    then obtain filt where "fst ?filter = Inr filt"
      using glorot_variable_returns [of "data_type b" ?shape ?name "''filter''" g] by auto
    moreover have "conv2d_strides (snd ?filter) = conv2d_strides g"
      by (rule cnn_variable_strides)
    ultimately show ?thesis using False
      by (simp add: convolution_def case_prod_unfold Let_def get_name_fields
            cnn_variable_strides activation_strides conv2d_strides_append
            split: sum.splits)
  qed
qed

text \<open>Strides 2 and 3 in both data formats.\<close>

theorem convolution_strides_witness:
  "conv2d_strides (snd (snd (convolution 64 3 3 2 3 (Some ''relu'') example_builder []))) = [[1, 1, 2, 3]]
   \<and> conv2d_strides (snd (snd (convolution 64 3 3 2 3 (Some ''relu'')
         (example_builder\<lparr>data_format := ''NHWC''\<rparr>) []))) = [[1, 2, 3, 1]]"
  using convolution_strides [of 64 3 3 2 3 "Some ''relu''" example_builder "[]"]
    convolution_strides [of 64 3 3 2 3 "Some ''relu''" "example_builder\<lparr>data_format := ''NHWC''\<rparr>" "[]"]
  by (simp add: example_builder_def init_def float32_def spec_fan_in_def spec_fan_out_def)

text \<open>
  Claim C5, as amended. \<^verbatim>\<open>_activation\<close> raises \<^verbatim>\<open>KeyError\<close> for every non-empty method
  outside its five keys and returns for every key; \<^verbatim>\<open>None\<close> and the empty string stand for
  \<^verbatim>\<open>linear\<close>. \<^verbatim>\<open>_initializer\<close> behaves in the same way on its two keys, with \<^verbatim>\<open>zeros\<close> as
  the default, for every shape that is not empty and whose fans do not add up to zero.
\<close>

theorem option_table_lookup:
  "(m \<noteq> [] \<and> m \<notin> {''linear'', ''relu'', ''sigmoid'', ''softmax'', ''tanh''}
      \<longrightarrow> fst (activation t (Some m) g) = Inl (KeyError m))
   \<and> (m \<in> {''linear'', ''relu'', ''sigmoid'', ''softmax'', ''tanh''}
      \<longrightarrow> (\<exists>r. fst (activation t (Some m) g) = Inr r))
   \<and> activation t None g = activation t (Some ''linear'') g
   \<and> activation t (Some []) g = activation t (Some ''linear'') g
   \<and> fst (activation t (Some ''linear'') g) = Inr t
   \<and> (shape \<noteq> [] \<and> spec_fan_in shape + spec_fan_out shape \<noteq> 0 \<longrightarrow>
        (m \<noteq> [] \<and> m \<notin> {''glorot_uniform'', ''zeros''}
           \<longrightarrow> initializer shape dt (Some m) = Inl (KeyError m))
      \<and> (m \<in> {''glorot_uniform'', ''zeros''} \<longrightarrow> (\<exists>r. initializer shape dt (Some m) = Inr r))
      \<and> initializer shape dt None = initializer shape dt (Some ''zeros'')
      \<and> initializer shape dt (Some []) = initializer shape dt (Some ''zeros'')
      \<and> initializer shape dt (Some ''zeros'') = Inr (ZerosInitializer dt))"
proof -
  have act_bad: "m \<noteq> [] \<and> m \<notin> {''linear'', ''relu'', ''sigmoid'', ''softmax'', ''tanh''}
      \<longrightarrow> fst (activation t (Some m) g) = Inl (KeyError m)"
    by (simp add: activation_def or_default_def dict_lookup_def Let_def)
  have act_good: "m \<in> {''linear'', ''relu'', ''sigmoid'', ''softmax'', ''tanh''}
      \<longrightarrow> (\<exists>r. fst (activation t (Some m) g) = Inr r)"
    by (auto simp: activation_def or_default_def dict_lookup_def Let_def)
  have act_none: "activation t None g = activation t (Some ''linear'') g"
    and act_empty: "activation t (Some []) g = activation t (Some ''linear'') g"
    and act_linear: "fst (activation t (Some ''linear'') g) = Inr t"
    by (simp_all add: activation_def or_default_def dict_lookup_def Let_def)
  have init: "shape \<noteq> [] \<and> spec_fan_in shape + spec_fan_out shape \<noteq> 0 \<longrightarrow>
        (m \<noteq> [] \<and> m \<notin> {''glorot_uniform'', ''zeros''}
           \<longrightarrow> initializer shape dt (Some m) = Inl (KeyError m))
      \<and> (m \<in> {''glorot_uniform'', ''zeros''} \<longrightarrow> (\<exists>r. initializer shape dt (Some m) = Inr r))
      \<and> initializer shape dt None = initializer shape dt (Some ''zeros'')
      \<and> initializer shape dt (Some []) = initializer shape dt (Some ''zeros'')
      \<and> initializer shape dt (Some ''zeros'') = Inr (ZerosInitializer dt)"
    by (auto simp: initializer_eq or_default_def dict_lookup_def)
  show ?thesis
    by (rule conjI [OF act_bad conjI [OF act_good conjI [OF act_none
          conjI [OF act_empty conjI [OF act_linear init]]]]])
qed

text \<open>An unknown method, a known one, and the default, on the shape of a 3x3 filter.\<close>

theorem option_table_lookup_witness:
  "fst (activation (InputTensor 0) (Some ''elu'') []) = Inl (KeyError ''elu'')
   \<and> initializer [3, 3, 3, 64] float32 (Some ''elu'') = Inl (KeyError ''elu'')
   \<and> (\<exists>r. fst (activation (InputTensor 0) (Some ''tanh'') []) = Inr r)
   \<and> (\<exists>r. initializer [3, 3, 3, 64] float32 (Some ''glorot_uniform'') = Inr r)
   \<and> initializer [3, 3, 3, 64] float32 None = Inr (ZerosInitializer float32)"
proof -
  have fans: "[3, 3, 3, 64] \<noteq> ([] :: int list)
      \<and> spec_fan_in [3, 3, 3, 64] + spec_fan_out [3, 3, 3, 64] \<noteq> 0"
    by (simp add: spec_fan_in_def spec_fan_out_def)
  note unknown = option_table_lookup [where m = "''elu''" and t = "InputTensor 0" and g = "[]"
      and shape = "[3, 3, 3, 64]" and dt = float32]
  note known_act = option_table_lookup [where m = "''tanh''" and t = "InputTensor 0" and g = "[]"
      and shape = "[3, 3, 3, 64]" and dt = float32]
  note known_init = option_table_lookup [where m = "''glorot_uniform''" and t = "InputTensor 0"
      and g = "[]" and shape = "[3, 3, 3, 64]" and dt = float32]
  from unknown fans have "fst (activation (InputTensor 0) (Some ''elu'') []) = Inl (KeyError ''elu'')"
    "initializer [3, 3, 3, 64] float32 (Some ''elu'') = Inl (KeyError ''elu'')"
    "initializer [3, 3, 3, 64] float32 None = Inr (ZerosInitializer float32)"
    by simp_all
  moreover from known_act have "\<exists>r. fst (activation (InputTensor 0) (Some ''tanh'') []) = Inr r"
    by simp
  moreover from known_init fans
  have "\<exists>r. initializer [3, 3, 3, 64] float32 (Some ''glorot_uniform'') = Inr r"
    by simp
  ultimately show ?thesis by blast
qed

text \<open>
  Claim C5 as it was stated fails on the empty shape: \<^verbatim>\<open>shape[-1]\<close> raises
  \<^verbatim>\<open>IndexError\<close> before the table is consulted, for a falsy method and for an unknown one.
\<close>

theorem initializer_before_lookup_counterexample:
  "initializer [] float32 None = Inl IndexError
   \<and> initializer [] float32 (Some ''elu'') = Inl IndexError"
  by (simp add: initializer_def)

text \<open>
  Claim C7, as amended. For a shape that is not empty and whose fans do not add up to zero,
  the method \<^verbatim>\<open>glorot_uniform\<close> gives the uniform initializer between \<open>- b\<close> and \<open>b\<close> with
  \<open>b = (6 / (fan_in + fan_out)) ** 0.5\<close> and the fans of the specification, and the method
  \<^verbatim>\<open>zeros\<close> gives the zero-fill initializer. When the fans add up to zero the division
  raises \<^verbatim>\<open>ZeroDivisionError\<close>, and the empty shape raises \<^verbatim>\<open>IndexError\<close>, whatever the
  method is.
\<close>

theorem glorot_uniform_bounds:
  "(shape \<noteq> [] \<and> spec_fan_in shape + spec_fan_out shape \<noteq> 0 \<longrightarrow>
      initializer shape dt (Some ''glorot_uniform'') =
        Inr (RandomUniformInitializer (Neg (spec_bound shape)) (spec_bound shape) dt)
      \<and> initializer shape dt (Some ''zeros'') = Inr (ZerosInitializer dt))
   \<and> (shape \<noteq> [] \<and> spec_fan_in shape + spec_fan_out shape = 0 \<longrightarrow>
        initializer shape dt method = Inl ZeroDivisionError)
   \<and> (shape = [] \<longrightarrow> initializer shape dt method = Inl IndexError)"
  by (simp add: initializer_eq or_default_def dict_lookup_def)

text \<open>A filter shape, a bias shape, a shape with zero fans and the empty shape.\<close>

theorem glorot_uniform_bounds_witness:
  "initializer [3, 3, 3, 64] float32 (Some ''glorot_uniform'') =
     Inr (RandomUniformInitializer
            (Neg (Pow (TrueDiv (IntLit 6) (IntLit (27 + 576))) FloatHalf))
            (Pow (TrueDiv (IntLit 6) (IntLit (27 + 576))) FloatHalf) float32)
   \<and> initializer [64] float32 (Some ''zeros'') = Inr (ZerosInitializer float32)
   \<and> initializer [0, 0] float32 (Some ''zeros'') = Inl ZeroDivisionError
   \<and> initializer [] float32 (Some ''zeros'') = Inl IndexError"
  using glorot_uniform_bounds [of "[3, 3, 3, 64]" float32 "Some ''zeros''"]
    glorot_uniform_bounds [of "[64]" float32 "Some ''zeros''"]
    glorot_uniform_bounds [of "[0, 0]" float32 "Some ''zeros''"]
    glorot_uniform_bounds [of "[]" float32 "Some ''zeros''"]
  by (simp add: spec_fan_in_def spec_fan_out_def spec_bound_def)

text \<open>
  Claim C7 as it was stated fails for the method \<^verbatim>\<open>zeros\<close> on a shape with zero fans: the
  bound is computed before the method is looked up.
\<close>

theorem zeros_initializer_counterexample:
  "initializer [0] float32 (Some ''zeros'') = Inl ZeroDivisionError"
  by (simp add: initializer_def)

text \<open>
  Claim C1, at \<^verbatim>\<open>reshape([8, -1])\<close>. The builder records the wildcard itself, \<open>- 1\<close>, as
  the channel count, although no tensor has a dimension of that size; the next
  \<^verbatim>\<open>fully_connected(512)\<close> then asks the framework for a weight variable of shape
  \<open>[- 1, 512]\<close>.
\<close>

theorem reshape_wildcard_channels:
  "(let (r, b', g') = reshape [8, - 1] example_builder []
    in r = Inr (Reshape (InputTensor 0) [8, - 1] ''reshape0'', - 1)
       \<and> num_top_channels b' = - 1
       \<and> get_variable_calls (snd (snd (fully_connected 512 (Some ''relu'') b' g'))) =
           [Variable ''fc0'' ''/cpu:0'' ''weights'' [- 1, 512] float32
              (RandomUniformInitializer
                 (Neg (Pow (TrueDiv (IntLit 6) (IntLit 511)) FloatHalf))
                 (Pow (TrueDiv (IntLit 6) (IntLit 511)) FloatHalf) float32),
            Variable ''fc0'' ''/cpu:0'' ''biases'' [512] float32 (ZerosInitializer float32)])"
  by (simp add: reshape_def fully_connected_def eval_defs)

text \<open>
  Claim C2, at the data format \<^verbatim>\<open>NCHW\<close>. \<^verbatim>\<open>max_pooling(3, 3)\<close> hands the window
  \<open>[1, 3, 3, 1]\<close> and the strides \<open>[1, 2, 2, 1]\<close> to the framework as they are, while
  \<^verbatim>\<open>convolution\<close> on the same builder reorders its strides to \<open>[1, 1, 2, 2]\<close>.
\<close>

theorem max_pooling_window_order:
  "snd (snd (max_pooling 3 3 2 2 example_builder [])) =
     [TensorOp (MaxPool (InputTensor 0) [1, 3, 3, 1] [1, 2, 2, 1] ''SAME'' ''NCHW'' ''mpool0'')]
   \<and> conv2d_strides (snd (snd (convolution 64 3 3 2 2 (Some ''relu'') example_builder []))) =
       [[1, 1, 2, 2]]"
  by (simp add: max_pooling_def convolution_def eval_defs)

text \<open>
  Claim C3, at the data type \<^verbatim>\<open>int32\<close>. \<^verbatim>\<open>cnn_variable\<close> returns the \<^verbatim>\<open>TypeError\<close> object
  as its value and makes no framework call; nothing is raised, and \<^verbatim>\<open>convolution\<close> goes on
  to pass the exception object to \<^verbatim>\<open>tf.nn.conv2d\<close> as the filter.
\<close>

theorem cnn_variable_returns_type_error:
  "cnn_variable ''conv0'' ''filter'' [3, 3, 3, 64] (Some ''glorot_uniform'') int32 [] =
     (Inr (ExceptionObject (TypeError ''Variables must be initialized as floating point.'')), [])
   \<and> fst (convolution 64 3 3 1 1 (Some ''relu'') (example_builder\<lparr>data_type := int32\<rparr>) []) =
       Inr (Relu (BiasAdd
                    (Conv2d (InputTensor 0)
                       (ExceptionObject
                          (TypeError ''Variables must be initialized as floating point.''))
                       [1, 1, 1, 1] ''SAME'' ''NCHW'')
                    (ExceptionObject
                       (TypeError ''Variables must be initialized as floating point.''))
                    ''NCHW''), 64)"
  by (simp add: convolution_def eval_defs)




end
